theory Spec2Isabelle
  imports Complex_Main
begin

section \<open>Data model\<close>

text \<open>
  Python strings are modelled as byte strings (the UTF-8 encoding), which keeps string
  equality, and with it every dictionary lookup, intact. The sample buffer returned by
  the inference engine is an opaque list of samples.
\<close>

type_synonym audio = "int list"

text \<open>
  The exceptions that the handlers of \<^verbatim>\<open>server/app.py\<close> and
  \<^verbatim>\<open>server/webui.py\<close> can meet. \<open>KeyError k\<close> carries \<open>e.args[0]\<close>, which is
  \<open>None\<close> when the looked-up key was Python's \<open>None\<close>. \<open>OSError\<close> stands for an exception
  of class \<open>OSError\<close> or of one of its subclasses (\<open>FileNotFoundError\<close>,
  \<open>NotADirectoryError\<close>, \<open>IsADirectoryError\<close>, \<open>FileExistsError\<close> and so on): the handlers
  catch none of them and so never tell them apart. \<open>RuntimeError\<close> is what \<open>soundfile\<close>
  raises when it cannot open a file. \<open>EngineError\<close> is any exception raised inside
  the inference engine, with its detail.
\<close>

datatype exn =
    KeyError "string option"
  | HTTPException nat string
  | UnboundLocalError string
  | OSError
  | ValueError
  | TypeError
  | RuntimeError
  | EngineError string

text \<open>\<open>class TTSModelRequest(BaseModel)\<close>, field by field.\<close>

record request =
  character_name :: "string option"
  ref_audio_path :: "string option"
  sovits_weights :: "string option"
  gpt_weights :: "string option"
  prompt_text :: "string option"
  prompt_language :: "string option"
  req_text :: string
  text_language :: string
  how_to_cut :: "string option"
  top_k :: "int option"
  top_p :: "rat option"
  temperature :: "rat option"
  ref_free :: "bool option"
  zip_filename :: "string option"

text \<open>
  A cell of the uploaded sheet as \<open>pandas\<close> hands it over: a string, a number, or the
  \<open>nan\<close> of an empty cell. (Booleans and dates are, like numbers, not strings, which is
  all that matters below.)
\<close>

datatype cell = Str string | Num rat | NaN

text \<open>The arguments of one call of \<open>tts_inference.infer\<close>, in the order of the call.
  The text is a cell, since \<open>batch_predict\<close> passes the sheet's cells on as they are.\<close>

record infer_args =
  arg_ref_wav_path :: "string option"
  arg_prompt_text :: "string option"
  arg_prompt_language :: string
  arg_text :: cell
  arg_text_language :: string
  arg_how_to_cut :: "string option"
  arg_top_k :: "int option"
  arg_top_p :: "rat option"
  arg_temperature :: "rat option"
  arg_ref_free :: "bool option"

text \<open>
  Files hold what the handlers write into them: nothing yet (a file just created by
  \<open>NamedTemporaryFile\<close>), a WAV file (\<open>sf.write(name, audio, sr, 'PCM_24')\<close>), or a zip
  archive, the list of its members in the order they were written. A member is the
  archive name with the content read at the time of writing, or a directory entry.
\<close>

datatype content =
    Empty
  | Wav nat audio
  | Zip "(string \<times> content option) list"

text \<open>
  The file system is one tree of regular files, directories and symbolic links. An
  entry is found under its key, the list of names that leads to it from the root; the
  root itself, key \<open>[]\<close>, is a directory and has no entry. Hard links, permissions,
  mount points and resource limits are not part of the model: every operation is one
  the process is allowed to do.
\<close>

type_synonym key = "string list"

datatype node = File content | Dir | Symlink string

type_synonym filesystem = "key \<rightharpoonup> node"

text \<open>
  \<open>root_logger.error(f"Error during inference: {str(e)}", exc_info=True)\<close>: the record
  holds the exception itself, which is what \<open>exc_info=True\<close> attaches to it.
\<close>

datatype log_record = LogError string exn

text \<open>What a handler returns: a \<open>FileResponse(path, media_type=...)\<close> or the pair
  \<open>{"error": message}, status\<close>.\<close>

datatype response =
    FileResponse string string
  | ErrorTuple string nat

text \<open>
  The state the handlers read and change: the file system, the working directory of
  the process, the temporary directory (the value of \<open>tempfile.gettempdir()\<close>, an
  absolute, normalised path), the source of random temporary names, the weights loaded
  in the inference engine (\<open>tts_inference.sovits_model\<close>, \<open>tts_inference.gpt_model\<close>),
  the calls made to the engine so far, the records logged, and the paths for which
  \<open>background_tasks.add_task(remove_temp_file, path)\<close> was called.
\<close>

record state =
  fs :: filesystem
  cwd :: key
  tmpdir :: string
  names :: "string list"
  sovits_model :: "string option"
  gpt_model :: "string option"
  sovits_loads :: "string option list"
  gpt_loads :: "string option list"
  infer_calls :: "infer_args list"
  log_records :: "log_record list"
  tasks :: "string list"

text \<open>
  The inference engine is outside this repository's two files: \<open>infer\<close> followed by
  \<open>next\<close> on the generator is a parameter of the handlers, a function of the loaded
  weights and the arguments that gives the exception raised or the first
  (sample rate, samples) pair.
\<close>

type_synonym engine = "string option \<times> string option \<Rightarrow> infer_args \<Rightarrow> exn + nat \<times> audio"

text \<open>\<open>example_json\<close>, a dictionary of dictionaries loaded from \<open>server/example.json\<close>.\<close>

type_synonym presets = "string \<rightharpoonup> (string \<rightharpoonup> string)"

section \<open>Dictionaries and path strings\<close>

text \<open>\<open>LANG_DICT\<close> of \<^verbatim>\<open>server/webui.py\<close>; the keys are the UTF-8 bytes of the
  Chinese labels.\<close>

definition LANG_DICT :: "string \<rightharpoonup> string" where
  "LANG_DICT = map_of
     [([CHR 0xE4, CHR 0xB8, CHR 0xAD, CHR 0xE6, CHR 0x96, CHR 0x87], ''all_zh''),
      ([CHR 0xE8, CHR 0x8B, CHR 0xB1, CHR 0xE6, CHR 0x96, CHR 0x87], ''en''),
      ([CHR 0xE6, CHR 0x97, CHR 0xA5, CHR 0xE6, CHR 0x96, CHR 0x87], ''all_ja''),
      ([CHR 0xE4, CHR 0xB8, CHR 0xAD, CHR 0xE8, CHR 0x8B, CHR 0xB1, CHR 0xE6, CHR 0xB7, CHR 0xB7,
        CHR 0xE5, CHR 0x90, CHR 0x88], ''zh''),
      ([CHR 0xE6, CHR 0x97, CHR 0xA5, CHR 0xE8, CHR 0x8B, CHR 0xB1, CHR 0xE6, CHR 0xB7, CHR 0xB7,
        CHR 0xE5, CHR 0x90, CHR 0x88], ''ja''),
      ([CHR 0xE5, CHR 0xA4, CHR 0x9A, CHR 0xE8, CHR 0xAF, CHR 0xAD, CHR 0xE7, CHR 0xA7, CHR 0x8D,
        CHR 0xE6, CHR 0xB7, CHR 0xB7, CHR 0xE5, CHR 0x90, CHR 0x88], ''auto'')]"

text \<open>\<open>d[k]\<close> on a dictionary with string keys, where \<open>k\<close> may be \<open>None\<close>.\<close>

definition getitem :: "(string \<rightharpoonup> 'v) \<Rightarrow> string option \<Rightarrow> exn + 'v" where
  "getitem d k =
     (case k of
        None \<Rightarrow> Inl (KeyError None)
      | Some key \<Rightarrow> (case d key of None \<Rightarrow> Inl (KeyError (Some key)) | Some v \<Rightarrow> Inr v))"

text \<open>\<open>os.path.join(a, b)\<close> and \<open>os.path.basename(p)\<close> of \<open>posixpath\<close>.\<close>

definition os_path_join :: "string \<Rightarrow> string \<Rightarrow> string" where
  "os_path_join a b =
     (if b \<noteq> [] \<and> hd b = CHR ''/'' then b
      else if a = [] \<or> last a = CHR ''/'' then a @ b
      else a @ ''/'' @ b)"

definition os_path_basename :: "string \<Rightarrow> string" where
  "os_path_basename p = rev (takeWhile (\<lambda>c. c \<noteq> CHR ''/'') (rev p))"

section \<open>Path resolution\<close>

text \<open>A path string cut at its slashes; the names between them, empty ones dropped.\<close>

fun split_slash :: "string \<Rightarrow> string list" where
  "split_slash [] = [[]]"
| "split_slash (c # cs) =
     (if c = CHR ''/'' then [] # split_slash cs
      else (case split_slash cs of [] \<Rightarrow> [[c]] | x # xs \<Rightarrow> (c # x) # xs))"

definition components :: "string \<Rightarrow> string list" where
  "components p = filter (\<lambda>c. c \<noteq> []) (split_slash p)"

definition slash :: "string \<Rightarrow> bool" where
  "slash p = (p \<noteq> [] \<and> last p = CHR ''/'')"

text \<open>A trailing slash asks for a directory, as a final \<open>.\<close> does.\<close>

definition marked :: "string \<Rightarrow> string list" where
  "marked p = components p @ (if components p \<noteq> [] \<and> slash p then [''.''] else [])"

text \<open>The last component is an ordinary name, neither \<open>.\<close> nor \<open>..\<close> nor the root.\<close>

definition proper :: "string \<Rightarrow> bool" where
  "proper p = (components p \<noteq> [] \<and> last (components p) \<noteq> ''.'' \<and> last (components p) \<noteq> ''..'')"

text \<open>
  What a path leads to: an entry, a free name in a directory that exists, or nothing
  (a directory on the way is missing or is no directory, a name is too long, too many
  symbolic links). \<open>Invalid\<close> is a path with a NUL byte, on which the \<open>os\<close> functions
  raise \<open>ValueError\<close>.
\<close>

datatype lookup = Found key node | Vacant key | Failed | Invalid

text \<open>
  The walk of the kernel along the components, from the directory \<open>d\<close>. A name may
  have 255 bytes; names are looked up only in a directory that is still there (so that
  from a working directory that has been removed only \<open>.\<close> and \<open>..\<close> lead anywhere);
  symbolic links on the way are followed, the last component only when \<open>follow\<close> is
  set or more components come after it; \<open>n\<close> symbolic links may still be followed.
\<close>

fun walk :: "nat \<Rightarrow> filesystem \<Rightarrow> key \<Rightarrow> string list \<Rightarrow> bool \<Rightarrow> lookup" where
  "walk n f d [] follow = Found d Dir"
| "walk n f d (c # cs) follow =
     (if c = ''.'' then walk n f d cs follow
      else if c = ''..'' then walk n f (butlast d) cs follow
      else if 255 < length c then Failed
      else if d \<noteq> [] \<and> f d \<noteq> Some Dir then Failed
      else (case f (d @ [c]) of
              None \<Rightarrow> if cs = [] then Vacant (d @ [c]) else Failed
            | Some (File x) \<Rightarrow> if cs = [] then Found (d @ [c]) (File x) else Failed
            | Some Dir \<Rightarrow> if cs = [] then Found (d @ [c]) Dir else walk n f (d @ [c]) cs follow
            | Some (Symlink t) \<Rightarrow>
                if cs = [] \<and> \<not> follow then Found (d @ [c]) (Symlink t)
                else (case n of
                        0 \<Rightarrow> Failed
                      | Suc m \<Rightarrow>
                          if t = [] then Failed
                          else walk m f (if hd t = CHR ''/'' then [] else d)
                                 (marked t @ cs) follow)))"

text \<open>
  \<open>locate\<close> is the resolution of \<open>stat\<close> (\<open>follow\<close> set), \<open>lstat\<close> and \<open>open\<close>: the whole
  path, a trailing slash included. \<open>leaf\<close> is the one of \<open>unlink\<close>, \<open>rmdir\<close>, \<open>rename\<close>
  and of creation with \<open>O_EXCL\<close>: the last component is looked up in its directory and
  never followed. A path is at most 4095 bytes long and at most 40 symbolic links are
  followed.
\<close>

definition locate :: "filesystem \<Rightarrow> key \<Rightarrow> bool \<Rightarrow> string \<Rightarrow> lookup" where
  "locate f wd follow p =
     (if CHR 0x00 \<in> set p then Invalid
      else if p = [] \<or> 4096 \<le> length p then Failed
      else walk 40 f (if hd p = CHR ''/'' then [] else wd) (marked p) follow)"

definition leaf :: "filesystem \<Rightarrow> key \<Rightarrow> string \<Rightarrow> lookup" where
  "leaf f wd p =
     (if CHR 0x00 \<in> set p then Invalid
      else if p = [] \<or> 4096 \<le> length p then Failed
      else walk 40 f (if hd p = CHR ''/'' then [] else wd) (components p) False)"

text \<open>\<open>q\<close> lies below \<open>k\<close> in the tree.\<close>

definition below :: "key \<Rightarrow> key \<Rightarrow> bool" where
  "below k q = (length k < length q \<and> take (length k) q = k)"

section \<open>Library operations on files\<close>

text \<open>\<open>os.path.isdir(path)\<close>: \<open>stat\<close> finds a directory; any failure gives \<open>False\<close>.\<close>

definition os_path_isdir :: "state \<Rightarrow> string \<Rightarrow> bool" where
  "os_path_isdir s p = (case locate (fs s) (cwd s) True p of Found k Dir \<Rightarrow> True | _ \<Rightarrow> False)"

text \<open>\<open>os.remove(path)\<close>: the last component must be a file or a symbolic link, named
  without a trailing slash.\<close>

definition os_remove :: "string \<Rightarrow> state \<Rightarrow> (exn + unit) \<times> state" where
  "os_remove p s =
     (case leaf (fs s) (cwd s) p of
        Invalid \<Rightarrow> (Inl ValueError, s)
      | Found k nd \<Rightarrow>
          if proper p \<and> \<not> slash p \<and> nd \<noteq> Dir then (Inr (), s\<lparr>fs := (fs s)(k := None)\<rparr>)
          else (Inl OSError, s)
      | _ \<Rightarrow> (Inl OSError, s))"

text \<open>\<open>os.rmdir(path)\<close>: the last component must be a directory with nothing in it.\<close>

definition os_rmdir :: "string \<Rightarrow> state \<Rightarrow> (exn + unit) \<times> state" where
  "os_rmdir p s =
     (case leaf (fs s) (cwd s) p of
        Invalid \<Rightarrow> (Inl ValueError, s)
      | Found k nd \<Rightarrow>
          if proper p \<and> nd = Dir \<and> (\<forall>q. below k q \<longrightarrow> fs s q = None)
          then (Inr (), s\<lparr>fs := (fs s)(k := None)\<rparr>)
          else (Inl OSError, s)
      | _ \<Rightarrow> (Inl OSError, s))"

text \<open>
  \<open>shutil.rmtree(path)\<close>: \<open>lstat\<close> must find a directory (a symbolic link to one is
  refused); everything below it is removed, then \<open>os.rmdir(path)\<close> is called, which
  can still fail, for a path that ends in \<open>.\<close> for one, with the content already gone.
\<close>

definition shutil_rmtree :: "string \<Rightarrow> state \<Rightarrow> (exn + unit) \<times> state" where
  "shutil_rmtree p s =
     (case locate (fs s) (cwd s) False p of
        Invalid \<Rightarrow> (Inl ValueError, s)
      | Found k nd \<Rightarrow>
          if nd = Dir then os_rmdir p (s\<lparr>fs := (\<lambda>q. if below k q then None else fs s q)\<rparr>)
          else (Inl OSError, s)
      | _ \<Rightarrow> (Inl OSError, s))"

text \<open>
  \<open>os.rename(src, dst)\<close>. Both last components must be ordinary names and the source
  must exist. A file or symbolic link takes the place of the destination unless that
  is a directory or either path has a trailing slash. A directory moves with all that
  is below it, to a free name or onto an empty directory, but not into itself nor onto
  one of its ancestors; the working directory moves along.
\<close>

definition move_tree :: "filesystem \<Rightarrow> key \<Rightarrow> key \<Rightarrow> filesystem" where
  "move_tree f ks kd =
     (\<lambda>q. if q = kd \<or> below kd q then f (ks @ drop (length kd) q)
          else if q = ks \<or> below ks q then None
          else f q)"

definition os_rename :: "string \<Rightarrow> string \<Rightarrow> state \<Rightarrow> (exn + unit) \<times> state" where
  "os_rename src dst s =
     (if CHR 0x00 \<in> set src \<or> CHR 0x00 \<in> set dst then (Inl ValueError, s)
      else if \<not> proper src \<or> \<not> proper dst then (Inl OSError, s)
      else
        (case leaf (fs s) (cwd s) src of
           Found ks ns \<Rightarrow>
             (case leaf (fs s) (cwd s) dst of
                Found kd nd \<Rightarrow>
                  if ns \<noteq> Dir then
                    (if slash src \<or> slash dst \<or> nd = Dir then (Inl OSError, s)
                     else (Inr (), s\<lparr>fs := ((fs s)(ks := None))(kd \<mapsto> ns)\<rparr>))
                  else if ks = kd then (Inr (), s)
                  else if below ks kd \<or> below kd ks \<or> nd \<noteq> Dir
                          \<or> (\<exists>q. below kd q \<and> fs s q \<noteq> None)
                    then (Inl OSError, s)
                  else (Inr (), s\<lparr>fs := move_tree (fs s) ks kd,
                                   cwd := (if cwd s = ks \<or> below ks (cwd s)
                                           then kd @ drop (length ks) (cwd s) else cwd s)\<rparr>)
              | Vacant kd \<Rightarrow>
                  if ns \<noteq> Dir then
                    (if slash src \<or> slash dst then (Inl OSError, s)
                     else (Inr (), s\<lparr>fs := ((fs s)(ks := None))(kd \<mapsto> ns)\<rparr>))
                  else if below ks kd then (Inl OSError, s)
                  else (Inr (), s\<lparr>fs := move_tree (fs s) ks kd,
                                   cwd := (if cwd s = ks \<or> below ks (cwd s)
                                           then kd @ drop (length ks) (cwd s) else cwd s)\<rparr>)
              | _ \<Rightarrow> (Inl OSError, s))
         | _ \<Rightarrow> (Inl OSError, s)))"

text \<open>
  \<open>os.open(file, O_RDWR | O_CREAT | O_EXCL | O_NOFOLLOW)\<close>: the file is created when
  its name is free; \<open>Exists\<close> is the \<open>FileExistsError\<close> for a name that is taken, by
  whatever it is; anything else is refused.
\<close>

datatype creation = Created key | Exists | Refused exn

definition os_open_excl :: "state \<Rightarrow> string \<Rightarrow> creation" where
  "os_open_excl s p =
     (case leaf (fs s) (cwd s) p of
        Invalid \<Rightarrow> Refused ValueError
      | Failed \<Rightarrow> Refused OSError
      | Vacant k \<Rightarrow> if \<not> proper p then Exists else if slash p then Refused OSError else Created k
      | Found k nd \<Rightarrow> if \<not> proper p then Exists else if slash p then Refused OSError else Exists)"

text \<open>
  \<open>tempfile.NamedTemporaryFile(delete=False, suffix=suf)\<close>: the candidate names
  \<open>tmp<random><suf>\<close> in the temporary directory are tried in turn; one that exists is
  passed over, any other failure is raised at once, and when the candidates run out
  \<open>FileExistsError\<close> is raised. The file is created empty and its name returned.
\<close>

fun mkstemp_inner ::
  "string \<Rightarrow> string \<Rightarrow> state \<Rightarrow> string list \<Rightarrow> (exn + string \<times> key) \<times> string list" where
  "mkstemp_inner dir suf s [] = (Inl OSError, [])"
| "mkstemp_inner dir suf s (r # rs) =
     (let file = os_path_join dir (''tmp'' @ r @ suf)
      in (case os_open_excl s file of
            Created k \<Rightarrow> (Inr (file, k), rs)
          | Exists \<Rightarrow> mkstemp_inner dir suf s rs
          | Refused e \<Rightarrow> (Inl e, rs)))"

definition NamedTemporaryFile :: "string \<Rightarrow> state \<Rightarrow> (exn + string) \<times> state" where
  "NamedTemporaryFile suf s =
     (case mkstemp_inner (tmpdir s) suf s (names s) of
        (Inl e, rs) \<Rightarrow> (Inl e, s\<lparr>names := rs\<rparr>)
      | (Inr (file, k), rs) \<Rightarrow> (Inr file, s\<lparr>fs := (fs s)(k \<mapsto> File Empty), names := rs\<rparr>))"

text \<open>
  Opening a path for writing, as \<open>open(path, 'wb')\<close> does: symbolic links are followed,
  a file that is there is emptied and one that is not is created. The result is the
  key of the file.
\<close>

definition open_w :: "state \<Rightarrow> string \<Rightarrow> exn + key" where
  "open_w s p =
     (case locate (fs s) (cwd s) True p of
        Found k (File c) \<Rightarrow> Inr k
      | Vacant k \<Rightarrow> Inr k
      | Invalid \<Rightarrow> Inl ValueError
      | _ \<Rightarrow> Inl OSError)"

text \<open>
  \<open>sf.write(name, audio, sr, 'PCM_24')\<close> for a name that ends in \<open>.wav\<close>, as the names
  at both call sites do: the file is opened for writing, through the C library, which
  reads the name up to its first NUL byte, and receives the samples.
\<close>

definition sf_write :: "string \<Rightarrow> audio \<Rightarrow> nat \<Rightarrow> state \<Rightarrow> (exn + unit) \<times> state" where
  "sf_write name audio sr s =
     (case open_w s (takeWhile (\<lambda>c. c \<noteq> CHR 0x00) name) of
        Inr k \<Rightarrow> (Inr (), s\<lparr>fs := (fs s)(k \<mapsto> File (Wav sr audio))\<rparr>)
      | Inl e \<Rightarrow> (Inl RuntimeError, s))"

text \<open>
  \<open>zipf.write(audio_file, arcname)\<close>: \<open>stat\<close> on the file, then one member appended to
  the members so far. The archive name is normalised, which turns an empty one into
  \<open>.\<close>, and a directory gives an entry of its own with a slash after its name.
\<close>

definition zipf_write :: "state \<Rightarrow> string \<Rightarrow> string \<Rightarrow> exn + string \<times> content option" where
  "zipf_write s audio_file arcname =
     (case locate (fs s) (cwd s) True audio_file of
        Invalid \<Rightarrow> Inl ValueError
      | Found k (File c) \<Rightarrow> Inr (if arcname = [] then ''.'' else arcname, Some c)
      | Found k Dir \<Rightarrow> Inr ((if arcname = [] then ''.'' else arcname) @ ''/'', None)
      | _ \<Rightarrow> Inl OSError)"

section \<open>The inference engine's weights\<close>

text \<open>
  Modelled from the spec: \<open>TTSInference.change_sovits_weights\<close> and
  \<open>TTSInference.change_gpt_weights\<close> live in \<^verbatim>\<open>src/inference.py\<close>, which is not among
  the source files. The spec gives their contract as \<open>set_active_weights(kind, path)\<close>,
  which swaps the engine's loaded weights; the handlers read the loaded path back from
  \<open>tts_inference.sovits_model\<close> and \<open>tts_inference.gpt_model\<close>. Every call is recorded.
\<close>

definition change_sovits_weights :: "string option \<Rightarrow> state \<Rightarrow> state" where
  "change_sovits_weights path s =
     s\<lparr>sovits_model := path, sovits_loads := sovits_loads s @ [path]\<rparr>"

definition change_gpt_weights :: "string option \<Rightarrow> state \<Rightarrow> state" where
  "change_gpt_weights path s =
     s\<lparr>gpt_model := path, gpt_loads := gpt_loads s @ [path]\<rparr>"

section \<open>\<^verbatim>\<open>server/app.py\<close>\<close>

text \<open>\<open>remove_temp_file(path)\<close>, lines 61 to 65.\<close>

definition remove_temp_file :: "string \<Rightarrow> state \<Rightarrow> (exn + unit) \<times> state" where
  "remove_temp_file path s =
     (if os_path_isdir s path then shutil_rmtree path s else os_remove path s)"

text \<open>
  Lines 105 to 110 (and 163 to 168): the five fields are overwritten one after the
  other from \<open>example_json[data.character_name]\<close>; a missing key raises \<open>KeyError\<close>.
\<close>

definition character_preset :: "presets \<Rightarrow> request \<Rightarrow> exn + request" where
  "character_preset example_json data =
     (if character_name data \<noteq> None then
        (case getitem example_json (character_name data) of
           Inl e \<Rightarrow> Inl e
         | Inr p \<Rightarrow>
        (case getitem p (Some ''audio_path'') of
           Inl e \<Rightarrow> Inl e
         | Inr v1 \<Rightarrow>
        (case getitem p (Some ''ref_text'') of
           Inl e \<Rightarrow> Inl e
         | Inr v2 \<Rightarrow>
        (case getitem p (Some ''ref_language'') of
           Inl e \<Rightarrow> Inl e
         | Inr v3 \<Rightarrow>
        (case getitem p (Some ''gpt_weights'') of
           Inl e \<Rightarrow> Inl e
         | Inr v4 \<Rightarrow>
        (case getitem p (Some ''sovits_weights'') of
           Inl e \<Rightarrow> Inl e
         | Inr v5 \<Rightarrow>
             Inr (data\<lparr>ref_audio_path := Some v1, prompt_text := Some v2,
                       prompt_language := Some v3, gpt_weights := Some v4,
                       sovits_weights := Some v5\<rparr>)))))))
      else Inr data)"

text \<open>Lines 111 to 114 (and 169 to 172).\<close>

definition swap_weights :: "request \<Rightarrow> state \<Rightarrow> state" where
  "swap_weights data s =
     (let s1 = (if sovits_model s \<noteq> sovits_weights data
                then change_sovits_weights (sovits_weights data) s else s)
      in if gpt_model s1 \<noteq> gpt_weights data
         then change_gpt_weights (gpt_weights data) s1 else s1)"

text \<open>
  The call \<open>tts_inference.infer(...)\<close> followed by \<open>next(audio_generator)\<close>. The
  arguments are evaluated from left to right, so the two \<open>LANG_DICT[...]\<close> lookups come
  before the call and the one for the prompt language comes first.
\<close>

definition infer_next ::
  "engine \<Rightarrow> string option \<Rightarrow> string option \<Rightarrow> string option \<Rightarrow> cell \<Rightarrow> string option \<Rightarrow>
   string option \<Rightarrow> int option \<Rightarrow> rat option \<Rightarrow> rat option \<Rightarrow> bool option \<Rightarrow>
   state \<Rightarrow> (exn + nat \<times> audio) \<times> state" where
  "infer_next infer ref_wav ptext planguage txt tlanguage how k p t rfree s =
     (case getitem LANG_DICT planguage of
        Inl e \<Rightarrow> (Inl e, s)
      | Inr plang \<Rightarrow>
     (case getitem LANG_DICT tlanguage of
        Inl e \<Rightarrow> (Inl e, s)
      | Inr tlang \<Rightarrow>
          (let args = \<lparr>arg_ref_wav_path = ref_wav, arg_prompt_text = ptext,
                       arg_prompt_language = plang, arg_text = txt, arg_text_language = tlang,
                       arg_how_to_cut = how, arg_top_k = k, arg_top_p = p,
                       arg_temperature = t, arg_ref_free = rfree\<rparr>
           in (infer (sovits_model s, gpt_model s) args,
               s\<lparr>infer_calls := infer_calls s @ [args]\<rparr>))))"

text \<open>
  Lines 116 to 135 (and 176 to 195): the inner \<open>try\<close>, whose \<open>except Exception\<close> logs
  whatever was raised and raises \<open>HTTPException(status_code=500, detail="Error during
  inference")\<close> in its place.
\<close>

definition generate :: "engine \<Rightarrow> request \<Rightarrow> cell \<Rightarrow> state \<Rightarrow> (exn + nat \<times> audio) \<times> state" where
  "generate infer data txt s =
     (case infer_next infer (ref_audio_path data) (prompt_text data) (prompt_language data)
             txt (Some (text_language data)) (how_to_cut data) (top_k data) (top_p data)
             (temperature data) (ref_free data) s of
        (Inl e, s1) \<Rightarrow>
          (Inl (HTTPException 500 ''Error during inference''),
           s1\<lparr>log_records := log_records s1 @ [LogError ''Error during inference: '' e]\<rparr>)
      | (Inr r, s1) \<Rightarrow> (Inr r, s1))"

text \<open>\<open>f"Missing necessary parameter: {e.args[0]}"\<close>.\<close>

definition missing_parameter :: "string option \<Rightarrow> string" where
  "missing_parameter k =
     ''Missing necessary parameter: '' @ (case k of None \<Rightarrow> ''None'' | Some key \<Rightarrow> key)"

text \<open>\<open>predict\<close>, lines 99 to 147: first the body of the outer \<open>try\<close>, then the
  handler with its \<open>except KeyError\<close>.\<close>

definition predict_try :: "presets \<Rightarrow> engine \<Rightarrow> request \<Rightarrow> state \<Rightarrow> (exn + response) \<times> state" where
  "predict_try example_json infer data0 s0 =
     (case character_preset example_json data0 of
        Inl e \<Rightarrow> (Inl e, s0)
      | Inr data \<Rightarrow>
     (case generate infer data (Str (req_text data)) (swap_weights data s0) of
        (Inl e, s1) \<Rightarrow> (Inl e, s1)
      | (Inr (sr, audio), s1) \<Rightarrow>
     (case NamedTemporaryFile ''.wav'' s1 of
        (Inl e, s2) \<Rightarrow> (Inl e, s2)
      | (Inr temp_file, s2) \<Rightarrow>
     (case sf_write temp_file audio sr s2 of
        (Inl e, s3) \<Rightarrow> (Inl e, s3)
      | (Inr u, s3) \<Rightarrow>
          (Inr (FileResponse temp_file ''audio/wav''),
           s3\<lparr>tasks := tasks s3 @ [temp_file]\<rparr>)))))"

definition predict :: "presets \<Rightarrow> engine \<Rightarrow> request \<Rightarrow> state \<Rightarrow> (exn + response) \<times> state" where
  "predict example_json infer data s =
     (case predict_try example_json infer data s of
        (Inl (KeyError k), s') \<Rightarrow> (Inr (ErrorTuple (missing_parameter k) 400), s')
      | r \<Rightarrow> r)"

text \<open>
  \<open>batch_predict\<close>, lines 151 to 224. The uploaded sheet is taken as read: \<open>rows\<close> is
  \<open>zip(texts, filenames)\<close>, the cells of its first two columns. The loop of lines 174
  to 205 carries \<open>audio_files\<close>; \<open>os.path.join\<close> raises \<open>TypeError\<close> on a file name that
  is not a string.
\<close>

fun batch_rows ::
  "engine \<Rightarrow> request \<Rightarrow> (cell \<times> cell) list \<Rightarrow> string list \<Rightarrow> state \<Rightarrow>
   (exn + string list) \<times> state" where
  "batch_rows infer data [] audio_files s = (Inr audio_files, s)"
| "batch_rows infer data ((txt, filename) # rows) audio_files s =
     (case generate infer data txt s of
        (Inl e, s1) \<Rightarrow> (Inl e, s1)
      | (Inr (sr, audio), s1) \<Rightarrow>
     (case NamedTemporaryFile ''.wav'' s1 of
        (Inl e, s2) \<Rightarrow> (Inl e, s2)
      | (Inr temp_file, s2) \<Rightarrow>
     (case sf_write temp_file audio sr s2 of
        (Inl e, s3) \<Rightarrow> (Inl e, s3)
      | (Inr u, s3) \<Rightarrow>
     (case filename of
        Str name \<Rightarrow>
          (let final_path = os_path_join (tmpdir s3) name
           in (case os_rename temp_file final_path s3 of
                 (Inl e, s4) \<Rightarrow> (Inl e, s4)
               | (Inr u, s4) \<Rightarrow>
                   batch_rows infer data rows (audio_files @ [final_path]) s4))
      | _ \<Rightarrow> (Inl TypeError, s3)))))"

text \<open>
  Lines 209 to 211: the members written before the first failure, and that failure.
  While the archive, whose file is at key \<open>kz\<close>, is being written, its file holds the
  members written so far.
\<close>

fun zip_members ::
  "state \<Rightarrow> key \<Rightarrow> string list \<Rightarrow> (string \<times> content option) list \<Rightarrow>
   exn option \<times> (string \<times> content option) list" where
  "zip_members s kz [] members = (None, members)"
| "zip_members s kz (audio_file # audio_files) members =
     (case zipf_write (s\<lparr>fs := (fs s)(kz \<mapsto> File (Zip members))\<rparr>) audio_file
             (os_path_basename audio_file) of
        Inl e \<Rightarrow> (Some e, members)
      | Inr m \<Rightarrow> zip_members s kz audio_files (members @ [m]))"

definition batch_try ::
  "presets \<Rightarrow> engine \<Rightarrow> request \<Rightarrow> (cell \<times> cell) list \<Rightarrow> state \<Rightarrow> (exn + response) \<times> state" where
  "batch_try example_json infer data0 rows s0 =
     (case character_preset example_json data0 of
        Inl e \<Rightarrow> (Inl e, s0)
      | Inr data \<Rightarrow>
     (case batch_rows infer data rows [] (swap_weights data s0) of
        (Inl e, s1) \<Rightarrow> (Inl e, s1)
      | (Inr audio_files, s1) \<Rightarrow>
     (case NamedTemporaryFile ''.zip'' s1 of
        (Inl e, s2) \<Rightarrow> (Inl e, s2)
      | (Inr zip_file, s2) \<Rightarrow>
     (case open_w s2 zip_file of
        Inl e \<Rightarrow> (Inl e, s2)
      | Inr kz \<Rightarrow>
     (case zip_members s2 kz audio_files [] of
        (Some e, members) \<Rightarrow> (Inl e, s2\<lparr>fs := (fs s2)(kz \<mapsto> File (Zip members))\<rparr>)
      | (None, members) \<Rightarrow>
          (let s3 = s2\<lparr>fs := (fs s2)(kz \<mapsto> File (Zip members))\<rparr>
           in (case zip_filename data of
                 None \<Rightarrow>
                   (Inl (UnboundLocalError ''final_zip_path''),
                    s3\<lparr>tasks := tasks s3 @ audio_files\<rparr>)
               | Some name \<Rightarrow>
                   (let final_zip_path = os_path_join (tmpdir s3) name
                    in (case os_rename zip_file final_zip_path s3 of
                          (Inl e, s4) \<Rightarrow> (Inl e, s4)
                        | (Inr u, s4) \<Rightarrow>
                            (Inr (FileResponse final_zip_path ''application/zip''),
                             s4\<lparr>tasks := tasks s4 @ audio_files @ [final_zip_path]\<rparr>))))))))))"

definition batch_predict ::
  "presets \<Rightarrow> engine \<Rightarrow> request \<Rightarrow> (cell \<times> cell) list \<Rightarrow> state \<Rightarrow> (exn + response) \<times> state" where
  "batch_predict example_json infer data rows s =
     (case batch_try example_json infer data rows s of
        (Inl (KeyError k), s') \<Rightarrow> (Inr (ErrorTuple (missing_parameter k) 400), s')
      | r \<Rightarrow> r)"

section \<open>\<^verbatim>\<open>server/webui.py\<close>\<close>

text \<open>
  \<open>get_tts_wav\<close>, lines 72 to 106. \<open>sovits_info\<close> and \<open>gpt_info\<close> are the
  \<open>models_info\<close> dictionaries of the two model handlers (speaker, then model name, to
  path). Nothing is caught here: every exception leaves the function.
\<close>

definition get_tts_wav ::
  "presets \<Rightarrow> presets \<Rightarrow> engine \<Rightarrow> string option \<Rightarrow> string option \<Rightarrow> string option \<Rightarrow>
   string option \<Rightarrow> string option \<Rightarrow> string option \<Rightarrow> string option \<Rightarrow> string \<Rightarrow>
   string option \<Rightarrow> string option \<Rightarrow> int option \<Rightarrow> rat option \<Rightarrow> rat option \<Rightarrow> bool option \<Rightarrow>
   state \<Rightarrow> (exn + nat \<times> audio) \<times> state" where
  "get_tts_wav sovits_info gpt_info infer sovits_speaker sovits_name gpt_speaker gpt_name
     tts_ref_audio tts_prompt_text tts_prompt_language tts_text tts_text_language
     how k p t rfree s =
     (case getitem sovits_info sovits_speaker of
        Inl e \<Rightarrow> (Inl e, s)
      | Inr sovits_models \<Rightarrow>
     (case getitem sovits_models sovits_name of
        Inl e \<Rightarrow> (Inl e, s)
      | Inr sovits_path \<Rightarrow>
     (case getitem gpt_info gpt_speaker of
        Inl e \<Rightarrow> (Inl e, s)
      | Inr gpt_models \<Rightarrow>
     (case getitem gpt_models gpt_name of
        Inl e \<Rightarrow> (Inl e, s)
      | Inr gpt_path \<Rightarrow>
          (let s1 = (if sovits_model s \<noteq> Some sovits_path
                     then change_sovits_weights (Some sovits_path) s else s);
               s2 = (if gpt_model s1 \<noteq> Some gpt_path
                     then change_gpt_weights (Some gpt_path) s1 else s1)
           in infer_next infer tts_ref_audio tts_prompt_text tts_prompt_language (Str tts_text)
                tts_text_language how k p t rfree s2)))))"

section \<open>Notions used in the statements\<close>

text \<open>The argument record that a request hands to the engine, once both languages
  have been looked up.\<close>

definition request_args :: "request \<Rightarrow> cell \<Rightarrow> string \<Rightarrow> string \<Rightarrow> infer_args" where
  "request_args data txt plang tlang =
     \<lparr>arg_ref_wav_path = ref_audio_path data, arg_prompt_text = prompt_text data,
      arg_prompt_language = plang, arg_text = txt, arg_text_language = tlang,
      arg_how_to_cut = how_to_cut data, arg_top_k = top_k data, arg_top_p = top_p data,
      arg_temperature = temperature data, arg_ref_free = ref_free data\<rparr>"

text \<open>
  The place that a path offers to a regular file: the key of its last component, when
  that is an ordinary name without a trailing slash in a directory that exists, and is
  free or held by a regular file.
\<close>

definition slot :: "state \<Rightarrow> string \<Rightarrow> key option" where
  "slot s p =
     (if proper p \<and> \<not> slash p then
        (case leaf (fs s) (cwd s) p of
           Vacant k \<Rightarrow> Some k
         | Found k (File c) \<Rightarrow> Some k
         | _ \<Rightarrow> None)
      else None)"

text \<open>
  A candidate temporary name is usable when neither its \<open>.wav\<close> nor its \<open>.zip\<close> file name
  is refused, and spare with respect to a set of keys when both can be created, at
  keys outside the set.
\<close>

definition usable :: "state \<Rightarrow> string \<Rightarrow> bool" where
  "usable s r =
     (\<forall>suf \<in> {''.wav'', ''.zip''}.
        case os_open_excl s (os_path_join (tmpdir s) (''tmp'' @ r @ suf)) of
          Refused e \<Rightarrow> False | _ \<Rightarrow> True)"

definition spare :: "key set \<Rightarrow> state \<Rightarrow> string \<Rightarrow> bool" where
  "spare K s r =
     (\<forall>suf \<in> {''.wav'', ''.zip''}.
        case os_open_excl s (os_path_join (tmpdir s) (''tmp'' @ r @ suf)) of
          Created k \<Rightarrow> k \<notin> K | _ \<Rightarrow> False)"

text \<open>The file system after WAV files have been put at the given keys, one after the
  other, a later one replacing an earlier one at the same key.\<close>

fun artifacts :: "(key \<times> nat \<times> audio) list \<Rightarrow> filesystem \<Rightarrow> filesystem" where
  "artifacts [] f = f"
| "artifacts ((k, sr, samples) # kos) f = artifacts kos (f(k \<mapsto> File (Wav sr samples)))"

definition file_content :: "filesystem \<Rightarrow> key \<Rightarrow> content option" where
  "file_content f k = (case f k of Some (File c) \<Rightarrow> Some c | _ \<Rightarrow> None)"

text \<open>The lists a call of \<open>change_sovits_weights\<close> or \<open>change_gpt_weights\<close> adds to
  the record of calls: the requested path when it differs from the loaded one.\<close>

definition reload :: "string option \<Rightarrow> string option \<Rightarrow> string option list" where
  "reload loaded requested = (if loaded \<noteq> requested then [requested] else [])"

section \<open>Example inputs\<close>

definition zh :: string where
  "zh = [CHR 0xE4, CHR 0xB8, CHR 0xAD, CHR 0xE6, CHR 0x96, CHR 0x87]"

definition demo_presets :: presets where
  "demo_presets =
     [''demo'' \<mapsto>
        [''audio_path'' \<mapsto> ''examples/demo.wav'', ''ref_text'' \<mapsto> ''hello'',
         ''ref_language'' \<mapsto> zh, ''gpt_weights'' \<mapsto> ''gpt/demo.ckpt'',
         ''sovits_weights'' \<mapsto> ''sovits/demo.pth'']]"

definition demo_models :: presets where
  "demo_models = [''demo'' \<mapsto> [''v1'' \<mapsto> ''weights/demo_v1'']]"

text \<open>An engine that fails on the text \<open>boom\<close> and otherwise returns the character
  codes of the text as samples (none for a cell that is not a string).\<close>

definition demo_engine :: engine where
  "demo_engine w a =
     (case arg_text a of
        Str t \<Rightarrow> if t = ''boom'' then Inl (EngineError ''CUDA out of memory'')
                 else Inr (32000, map (\<lambda>c. int (of_char c)) t)
      | _ \<Rightarrow> Inr (32000, []))"

text \<open>A file system that holds the directory \<open>/tmp\<close> and nothing else.\<close>

definition demo_state :: state where
  "demo_state =
     \<lparr>fs = [[''tmp''] \<mapsto> Dir], cwd = [], tmpdir = ''/tmp'',
      names = [''a'', ''b'', ''c'', ''d''],
      sovits_model = None, gpt_model = None, sovits_loads = [], gpt_loads = [],
      infer_calls = [], log_records = [], tasks = []\<rparr>"

definition demo_request :: request where
  "demo_request =
     \<lparr>character_name = Some ''demo'', ref_audio_path = None, sovits_weights = None,
      gpt_weights = None, prompt_text = None, prompt_language = None, req_text = ''hi'',
      text_language = zh, how_to_cut = None, top_k = Some 5, top_p = Some (7 / 10),
      temperature = Some (7 / 10), ref_free = Some False, zip_filename = None\<rparr>"


section \<open>Weights, generation and temporary files leave the rest of the state alone\<close>

lemma swap_weights_models:
  "sovits_model (swap_weights data s) = sovits_weights data"
  "gpt_model (swap_weights data s) = gpt_weights data"
  by (simp_all add: swap_weights_def change_sovits_weights_def change_gpt_weights_def Let_def)

lemma swap_weights_loads:
  "sovits_loads (swap_weights data s) =
     sovits_loads s @ reload (sovits_model s) (sovits_weights data)"
  "gpt_loads (swap_weights data s) = gpt_loads s @ reload (gpt_model s) (gpt_weights data)"
  by (simp_all add: swap_weights_def change_sovits_weights_def change_gpt_weights_def Let_def
      reload_def)

lemma swap_weights_frame:
  "fs (swap_weights data s) = fs s"
  "cwd (swap_weights data s) = cwd s"
  "tmpdir (swap_weights data s) = tmpdir s"
  "names (swap_weights data s) = names s"
  "infer_calls (swap_weights data s) = infer_calls s"
  "log_records (swap_weights data s) = log_records s"
  "tasks (swap_weights data s) = tasks s"
  by (simp_all add: swap_weights_def change_sovits_weights_def change_gpt_weights_def Let_def)

lemma generate_ok:
  assumes "getitem LANG_DICT (prompt_language data) = Inr plang"
      and "getitem LANG_DICT (Some (text_language data)) = Inr tlang"
      and "infer (sovits_model s, gpt_model s) (request_args data txt plang tlang) = Inr r"
  shows "generate infer data txt s =
           (Inr r, s\<lparr>infer_calls := infer_calls s @ [request_args data txt plang tlang]\<rparr>)"
  using assms by (simp add: generate_def infer_next_def request_args_def)

lemma generate_raises:
  assumes "getitem LANG_DICT (prompt_language data) = Inr plang"
      and "getitem LANG_DICT (Some (text_language data)) = Inr tlang"
      and "infer (sovits_model s, gpt_model s) (request_args data txt plang tlang) = Inl e"
  shows "generate infer data txt s =
           (Inl (HTTPException 500 ''Error during inference''),
            s\<lparr>infer_calls := infer_calls s @ [request_args data txt plang tlang],
              log_records := log_records s @ [LogError ''Error during inference: '' e]\<rparr>)"
  using assms by (simp add: generate_def infer_next_def request_args_def)

lemma generate_frame:
  assumes "generate infer data line s = (r, s')"
  shows "fs s' = fs s \<and> cwd s' = cwd s \<and> tmpdir s' = tmpdir s \<and> names s' = names s
       \<and> tasks s' = tasks s
       \<and> sovits_model s' = sovits_model s \<and> gpt_model s' = gpt_model s
       \<and> sovits_loads s' = sovits_loads s \<and> gpt_loads s' = gpt_loads s"
  using assms
  by (auto simp: generate_def infer_next_def Let_def split: sum.splits prod.splits)

lemma NamedTemporaryFile_frame:
  assumes "NamedTemporaryFile suf s = (r, s')"
  shows "cwd s' = cwd s \<and> tmpdir s' = tmpdir s \<and> tasks s' = tasks s
       \<and> sovits_model s' = sovits_model s \<and> gpt_model s' = gpt_model s
       \<and> sovits_loads s' = sovits_loads s \<and> gpt_loads s' = gpt_loads s
       \<and> infer_calls s' = infer_calls s \<and> log_records s' = log_records s"
  using assms
  by (auto simp: NamedTemporaryFile_def split: prod.splits sum.splits)

lemma sf_write_frame:
  assumes "sf_write name audio sr s = (r, s')"
  shows "cwd s' = cwd s \<and> tmpdir s' = tmpdir s \<and> names s' = names s \<and> tasks s' = tasks s
       \<and> sovits_model s' = sovits_model s \<and> gpt_model s' = gpt_model s
       \<and> sovits_loads s' = sovits_loads s \<and> gpt_loads s' = gpt_loads s
       \<and> infer_calls s' = infer_calls s \<and> log_records s' = log_records s"
  using assms
  by (auto simp: sf_write_def split: sum.splits)

lemma os_rename_frame:
  assumes "os_rename src dst s = (r, s')"
  shows "tmpdir s' = tmpdir s \<and> names s' = names s \<and> tasks s' = tasks s
       \<and> sovits_model s' = sovits_model s \<and> gpt_model s' = gpt_model s
       \<and> sovits_loads s' = sovits_loads s \<and> gpt_loads s' = gpt_loads s
       \<and> infer_calls s' = infer_calls s \<and> log_records s' = log_records s"
  using assms
  by (auto simp: os_rename_def split: if_splits lookup.splits)

lemma batch_rows_frame:
  assumes "batch_rows infer data rows acc s = (r, s')"
  shows "tmpdir s' = tmpdir s \<and> tasks s' = tasks s
       \<and> sovits_model s' = sovits_model s \<and> gpt_model s' = gpt_model s
       \<and> sovits_loads s' = sovits_loads s \<and> gpt_loads s' = gpt_loads s"
  using assms
proof (induction rows arbitrary: acc s)
  case Nil
  then show ?case by simp
next
  case (Cons row rows)
  obtain line filename where row: "row = (line, filename)" by (cases row)
  obtain g s1 where g: "generate infer data line s = (g, s1)"
    by (cases "generate infer data line s")
  note f1 = generate_frame [OF g]
  show ?case
  proof (cases g)
    case (Inl e)
    with Cons.prems row g f1 show ?thesis by simp
  next
    case (Inr out)
    obtain sr audio where out: "out = (sr, audio)" by (cases out)
    obtain t s2 where t: "NamedTemporaryFile ''.wav'' s1 = (t, s2)"
      by (cases "NamedTemporaryFile ''.wav'' s1")
    note f2 = NamedTemporaryFile_frame [OF t]
    show ?thesis
    proof (cases t)
      case (Inl e)
      with Cons.prems row g Inr out t f1 f2 show ?thesis by simp
    next
      case tf: (Inr temp_file)
      obtain w s3 where w: "sf_write temp_file audio sr s2 = (w, s3)"
        by (cases "sf_write temp_file audio sr s2")
      note f3 = sf_write_frame [OF w]
      show ?thesis
      proof (cases w)
        case (Inl e)
        with Cons.prems row g Inr out t tf w f1 f2 f3 show ?thesis by simp
      next
        case wr: (Inr u)
        show ?thesis
        proof (cases filename)
          case (Str name)
          obtain m s4 where m: "os_rename temp_file (os_path_join (tmpdir s3) name) s3 = (m, s4)"
            by (cases "os_rename temp_file (os_path_join (tmpdir s3) name) s3")
          note f4 = os_rename_frame [OF m]
          show ?thesis
          proof (cases m)
            case (Inl e)
            with Cons.prems row g Inr out t tf w wr Str m f1 f2 f3 f4 show ?thesis
              by (simp add: Let_def)
          next
            case mv: (Inr u')
            from Cons.prems row g Inr out t tf w wr Str m mv
            have "batch_rows infer data rows (acc @ [os_path_join (tmpdir s3) name]) s4 = (r, s')"
              by (simp add: Let_def)
            from Cons.IH [OF this] f1 f2 f3 f4 show ?thesis by simp
          qed
        next
          case (Num x)
          with Cons.prems row g Inr out t tf w wr f1 f2 f3 show ?thesis by simp
        next
          case NaN
          with Cons.prems row g Inr out t tf w wr f1 f2 f3 show ?thesis by simp
        qed
      qed
    qed
  qed
qed

lemma predict_snd:
  "snd (predict example_json infer data s) = snd (predict_try example_json infer data s)"
  by (auto simp: predict_def split: prod.splits sum.splits exn.splits)

lemma batch_predict_snd:
  "snd (batch_predict example_json infer data rows s) =
     snd (batch_try example_json infer data rows s)"
  by (auto simp: batch_predict_def split: prod.splits sum.splits exn.splits)

lemma predict_try_loads:
  assumes "character_preset example_json data0 = Inr data"
  shows "sovits_loads (snd (predict_try example_json infer data0 s)) =
           sovits_loads (swap_weights data s)
       \<and> gpt_loads (snd (predict_try example_json infer data0 s)) =
           gpt_loads (swap_weights data s)"
proof -
  let ?s1 = "swap_weights data s"
  obtain g s2 where g: "generate infer data (Str (req_text data)) ?s1 = (g, s2)"
    by (cases "generate infer data (Str (req_text data)) ?s1")
  note f1 = generate_frame [OF g]
  obtain t s3 where t: "NamedTemporaryFile ''.wav'' s2 = (t, s3)"
    by (cases "NamedTemporaryFile ''.wav'' s2")
  note f2 = NamedTemporaryFile_frame [OF t]
  have f3: "sovits_loads s4 = sovits_loads s3 \<and> gpt_loads s4 = gpt_loads s3"
    if "sf_write name audio sr s3 = (w, s4)" for name audio sr w s4
    using sf_write_frame [OF that] by simp
  show ?thesis
    using assms g t f1 f2
    by (auto simp: predict_try_def Let_def split: sum.splits prod.splits dest: f3)
qed

lemma batch_try_loads:
  assumes "character_preset example_json data0 = Inr data"
  shows "sovits_loads (snd (batch_try example_json infer data0 rows s)) =
           sovits_loads (swap_weights data s)
       \<and> gpt_loads (snd (batch_try example_json infer data0 rows s)) =
           gpt_loads (swap_weights data s)"
proof -
  let ?s1 = "swap_weights data s"
  obtain b s2 where b: "batch_rows infer data rows [] ?s1 = (b, s2)"
    by (cases "batch_rows infer data rows [] ?s1")
  note f1 = batch_rows_frame [OF b]
  obtain t s3 where t: "NamedTemporaryFile ''.zip'' s2 = (t, s3)"
    by (cases "NamedTemporaryFile ''.zip'' s2")
  note f2 = NamedTemporaryFile_frame [OF t]
  have f3: "sovits_loads s5 = sovits_loads s4 \<and> gpt_loads s5 = gpt_loads s4"
    if "os_rename a c s4 = (w, s5)" for a c w s4 s5
    using os_rename_frame [OF that] by simp
  show ?thesis
    using assms b t f1 f2
    by (auto simp: batch_try_def Let_def split: sum.splits prod.splits option.splits dest!: f3)
qed

lemma infer_next_loads:
  "sovits_loads (snd (infer_next infer a b c d e f g h i j s)) = sovits_loads s
   \<and> gpt_loads (snd (infer_next infer a b c d e f g h i j s)) = gpt_loads s"
  by (auto simp: infer_next_def Let_def split: sum.splits)

section \<open>The example inputs\<close>

lemmas demo_defs = demo_presets_def demo_request_def demo_state_def demo_engine_def zh_def

lemmas path_defs = locate_def leaf_def marked_def components_def proper_def slash_def
  below_def os_path_join_def os_path_basename_def

lemmas handler_defs = predict_def predict_try_def batch_predict_def batch_try_def
  character_preset_def getitem_def generate_def infer_next_def LANG_DICT_def
  swap_weights_def change_sovits_weights_def change_gpt_weights_def
  NamedTemporaryFile_def os_open_excl_def sf_write_def open_w_def os_rename_def
  zipf_write_def missing_parameter_def Let_def

lemma demo_character:
  "character_preset demo_presets (demo_request\<lparr>req_text := t\<rparr>) =
     Inr (demo_request\<lparr>req_text := t, ref_audio_path := Some ''examples/demo.wav'',
            prompt_text := Some ''hello'', prompt_language := Some zh,
            gpt_weights := Some ''gpt/demo.ckpt'', sovits_weights := Some ''sovits/demo.pth''\<rparr>)"
  by (simp add: character_preset_def getitem_def demo_presets_def demo_request_def)

lemma demo_batch_character:
  "character_preset demo_presets (demo_request\<lparr>zip_filename := Some ''out.zip''\<rparr>) =
     Inr (demo_request\<lparr>zip_filename := Some ''out.zip'',
            ref_audio_path := Some ''examples/demo.wav'',
            prompt_text := Some ''hello'', prompt_language := Some zh,
            gpt_weights := Some ''gpt/demo.ckpt'', sovits_weights := Some ''sovits/demo.pth''\<rparr>)"
  by (simp add: character_preset_def getitem_def demo_presets_def demo_request_def)

lemma LANG_DICT_zh: "getitem LANG_DICT (Some zh) = Inr ''all_zh''"
  by (simp add: getitem_def LANG_DICT_def zh_def)

section \<open>The character preset\<close>

lemma generate_character:
  "generate infer (data\<lparr>character_name := x\<rparr>) line s = generate infer data line s"
  by (simp add: generate_def)

lemma swap_weights_character:
  "swap_weights (data\<lparr>character_name := x\<rparr>) s = swap_weights data s"
  by (simp add: swap_weights_def Let_def)

lemma batch_rows_character:
  "batch_rows infer (data\<lparr>character_name := x\<rparr>) rows acc s = batch_rows infer data rows acc s"
proof (induction rows arbitrary: acc s)
  case Nil
  show ?case by simp
next
  case (Cons row rows)
  obtain line filename where "row = (line, filename)" by (cases row)
  with Cons.IH show ?case
    by (auto simp: generate_character Let_def split: prod.splits sum.splits cell.splits)
qed

lemma character_preset_none:
  "character_name data = None \<Longrightarrow> character_preset example_json data = Inr data"
  by (simp add: character_preset_def)

section \<open>What the engine is given\<close>

lemma generate_calls:
  assumes "getitem LANG_DICT (prompt_language data) = Inr plang"
      and "getitem LANG_DICT (Some (text_language data)) = Inr tlang"
  shows "infer_calls (snd (generate infer data line s)) =
           infer_calls s @ [request_args data line plang tlang]"
  using assms
  by (simp add: generate_def infer_next_def request_args_def Let_def split: sum.splits)

lemma generate_engine:
  assumes "sovits_model s = w1" and "gpt_model s = w2"
  shows "generate infer data line s = generate (\<lambda>w. infer (w1, w2)) data line s"
  using assms by (auto simp: generate_def infer_next_def)

lemma batch_rows_engine:
  assumes "sovits_model s = w1" and "gpt_model s = w2"
  shows "batch_rows infer data rows acc s = batch_rows (\<lambda>w. infer (w1, w2)) data rows acc s"
  using assms
proof (induction rows arbitrary: acc s)
  case Nil
  show ?case by simp
next
  case (Cons row rows)
  obtain line filename where row: "row = (line, filename)" by (cases row)
  have g: "generate infer data line s = generate (\<lambda>w. infer (w1, w2)) data line s"
    using Cons.prems by (rule generate_engine)
  have m: "sovits_model s4 = w1 \<and> gpt_model s4 = w2"
    if "generate (\<lambda>w. infer (w1, w2)) data line s = (g1, s1)"
      and "NamedTemporaryFile ''.wav'' s1 = (g2, s2)"
      and "sf_write tmp audio sr s2 = (g3, s3)"
      and "os_rename tmp dst s3 = (g4, s4)"
    for g1 s1 g2 s2 tmp audio sr g3 s3 dst g4 s4
    using generate_frame [OF that(1)] NamedTemporaryFile_frame [OF that(2)]
      sf_write_frame [OF that(3)] os_rename_frame [OF that(4)] Cons.prems
    by simp
  show ?case
    unfolding row batch_rows.simps g
    by (auto simp: Let_def split: prod.splits sum.splits cell.splits dest: m intro!: Cons.IH)
qed

lemma batch_rows_calls:
  assumes "getitem LANG_DICT (prompt_language data) = Inr plang"
      and "getitem LANG_DICT (Some (text_language data)) = Inr tlang"
  shows "\<exists>n\<le>length rows. (rows \<noteq> [] \<longrightarrow> 0 < n)
           \<and> infer_calls (snd (batch_rows infer data rows acc s)) =
               infer_calls s @ map (\<lambda>row. request_args data (fst row) plang tlang) (take n rows)"
proof (induction rows arbitrary: acc s)
  case Nil
  show ?case by simp
next
  case (Cons row rows)
  let ?a = "\<lambda>row. request_args data (fst row) plang tlang"
  obtain line filename where row: "row = (line, filename)" by (cases row)
  obtain g s1 where g: "generate infer data line s = (g, s1)"
    by (cases "generate infer data line s")
  have c1: "infer_calls s1 = infer_calls s @ [?a row]"
    using generate_calls [OF assms, of infer line s] g row by simp
  have one: ?case if "infer_calls (snd (batch_rows infer data (row # rows) acc s)) = infer_calls s1"
    using that c1 by (intro exI [of _ 1]) simp
  show ?case
  proof (cases g)
    case (Inl e)
    with g row show ?thesis by (intro one) simp
  next
    case (Inr out)
    obtain sr audio where out: "out = (sr, audio)" by (cases out)
    obtain t s2 where t: "NamedTemporaryFile ''.wav'' s1 = (t, s2)"
      by (cases "NamedTemporaryFile ''.wav'' s1")
    note f2 = NamedTemporaryFile_frame [OF t]
    show ?thesis
    proof (cases t)
      case (Inl e)
      with g row Inr out t f2 show ?thesis by (intro one) simp
    next
      case tf: (Inr temp_file)
      obtain w s3 where w: "sf_write temp_file audio sr s2 = (w, s3)"
        by (cases "sf_write temp_file audio sr s2")
      note f3 = sf_write_frame [OF w]
      show ?thesis
      proof (cases w)
        case (Inl e)
        with g row Inr out t tf w f2 f3 show ?thesis by (intro one) simp
      next
        case wr: (Inr u)
        show ?thesis
        proof (cases filename)
          case (Str name)
          obtain m s4 where m: "os_rename temp_file (os_path_join (tmpdir s3) name) s3 = (m, s4)"
            by (cases "os_rename temp_file (os_path_join (tmpdir s3) name) s3")
          note f4 = os_rename_frame [OF m]
          show ?thesis
          proof (cases m)
            case (Inl e)
            with g row Inr out t tf w wr Str m f2 f3 f4 show ?thesis
              by (intro one) (simp add: Let_def)
          next
            case mv: (Inr u')
            have b: "batch_rows infer data (row # rows) acc s =
                       batch_rows infer data rows (acc @ [os_path_join (tmpdir s3) name]) s4"
              using g row Inr out t tf w wr Str m mv by (simp add: Let_def)
            from Cons.IH [of "acc @ [os_path_join (tmpdir s3) name]" s4]
            obtain n where n: "n \<le> length rows"
              "infer_calls (snd (batch_rows infer data rows
                 (acc @ [os_path_join (tmpdir s3) name]) s4)) =
               infer_calls s4 @ map ?a (take n rows)"
              by blast
            have "infer_calls s4 = infer_calls s @ [?a row]"
              using c1 f2 f3 f4 by simp
            with n b show ?thesis
              by (intro exI [of _ "Suc n"]) simp
          qed
        next
          case (Num x)
          with g row Inr out t tf w wr f2 f3 show ?thesis by (intro one) simp
        next
          case NaN
          with g row Inr out t tf w wr f2 f3 show ?thesis by (intro one) simp
        qed
      qed
    qed
  qed
qed

lemma predict_try_after:
  assumes "character_preset example_json data0 = Inr data"
  shows "sovits_model (snd (predict_try example_json infer data0 s)) = sovits_weights data
       \<and> gpt_model (snd (predict_try example_json infer data0 s)) = gpt_weights data
       \<and> (getitem LANG_DICT (prompt_language data) = Inr plang
            \<and> getitem LANG_DICT (Some (text_language data)) = Inr tlang \<longrightarrow>
          infer_calls (snd (predict_try example_json infer data0 s)) =
            infer_calls s @ [request_args data (Str (req_text data)) plang tlang])"
proof -
  let ?s1 = "swap_weights data s"
  obtain g s2 where g: "generate infer data (Str (req_text data)) ?s1 = (g, s2)"
    by (cases "generate infer data (Str (req_text data)) ?s1")
  note f1 = generate_frame [OF g]
  have c: "infer_calls s2 = infer_calls s @ [request_args data (Str (req_text data)) plang tlang]"
    if "getitem LANG_DICT (prompt_language data) = Inr plang"
      "getitem LANG_DICT (Some (text_language data)) = Inr tlang"
    using generate_calls [OF that, of infer "Str (req_text data)" ?s1] g
    by (simp add: swap_weights_frame)
  obtain t s3 where t: "NamedTemporaryFile ''.wav'' s2 = (t, s3)"
    by (cases "NamedTemporaryFile ''.wav'' s2")
  note f2 = NamedTemporaryFile_frame [OF t]
  have f3: "sovits_model s4 = sovits_model s3 \<and> gpt_model s4 = gpt_model s3
            \<and> infer_calls s4 = infer_calls s3"
    if "sf_write name audio sr s3 = (w, s4)" for name audio sr w s4
    using sf_write_frame [OF that] by simp
  show ?thesis
    using assms g t f1 f2 c
    by (auto simp: predict_try_def Let_def swap_weights_models
        split: sum.splits prod.splits dest: f3)
qed

lemma batch_try_after:
  assumes "character_preset example_json data0 = Inr data"
  shows "sovits_model (snd (batch_try example_json infer data0 rows s)) = sovits_weights data
       \<and> gpt_model (snd (batch_try example_json infer data0 rows s)) = gpt_weights data
       \<and> (getitem LANG_DICT (prompt_language data) = Inr plang
            \<and> getitem LANG_DICT (Some (text_language data)) = Inr tlang \<longrightarrow>
          (\<exists>n\<le>length rows. (rows \<noteq> [] \<longrightarrow> 0 < n)
             \<and> infer_calls (snd (batch_try example_json infer data0 rows s)) =
                 infer_calls s @
                 map (\<lambda>row. request_args data (fst row) plang tlang) (take n rows)))"
proof -
  let ?s1 = "swap_weights data s"
  obtain b s2 where b: "batch_rows infer data rows [] ?s1 = (b, s2)"
    by (cases "batch_rows infer data rows [] ?s1")
  note f1 = batch_rows_frame [OF b]
  obtain t s3 where t: "NamedTemporaryFile ''.zip'' s2 = (t, s3)"
    by (cases "NamedTemporaryFile ''.zip'' s2")
  note f2 = NamedTemporaryFile_frame [OF t]
  have f3: "sovits_model s5 = sovits_model s4 \<and> gpt_model s5 = gpt_model s4
            \<and> infer_calls s5 = infer_calls s4"
    if "os_rename a c s4 = (w, s5)" for a c w s4 s5
    using os_rename_frame [OF that] by simp
  have m: "sovits_model (snd (batch_try example_json infer data0 rows s)) = sovits_model s2
         \<and> gpt_model (snd (batch_try example_json infer data0 rows s)) = gpt_model s2
         \<and> infer_calls (snd (batch_try example_json infer data0 rows s)) = infer_calls s2"
    using assms b t f2
    by (auto simp: batch_try_def Let_def split: sum.splits prod.splits option.splits dest!: f3)
  have c: "\<exists>n\<le>length rows. (rows \<noteq> [] \<longrightarrow> 0 < n)
             \<and> infer_calls s2 =
                 infer_calls s @ map (\<lambda>row. request_args data (fst row) plang tlang) (take n rows)"
    if "getitem LANG_DICT (prompt_language data) = Inr plang"
      "getitem LANG_DICT (Some (text_language data)) = Inr tlang"
    using batch_rows_calls [OF that, of rows infer "[]" ?s1] b
    by (simp add: swap_weights_frame)
  show ?thesis
    using m f1 c by (simp add: swap_weights_models)
qed

lemma predict_try_engine:
  assumes "character_preset example_json data0 = Inr data"
  shows "predict_try example_json infer data0 s =
           predict_try example_json (\<lambda>w. infer (sovits_weights data, gpt_weights data)) data0 s"
  unfolding predict_try_def assms
  by (simp add: generate_engine [where infer = infer, OF swap_weights_models])

lemma batch_try_engine:
  assumes "character_preset example_json data0 = Inr data"
  shows "batch_try example_json infer data0 rows s =
           batch_try example_json (\<lambda>w. infer (sovits_weights data, gpt_weights data))
             data0 rows s"
  unfolding batch_try_def assms
  by (simp add: batch_rows_engine [where infer = infer, OF swap_weights_models])

section \<open>C2: the archive without a file name\<close>

text \<open>
  C2 on the code: a batch of two rows that both synthesize, with no \<open>zip_filename\<close>.
  The zip archive is written under its temporary name, cleanup is scheduled for the
  two row artifacts, and line 219 raises \<open>UnboundLocalError\<close> for \<open>final_zip_path\<close>:
  no cleanup is scheduled for the archive and no response is returned.
\<close>

theorem C2_no_zip_filename:
  "zip_filename demo_request = None
   \<and> fst (batch_predict demo_presets demo_engine demo_request
          [(Str ''one'', Str ''x.wav''), (Str ''two'', Str ''y.wav'')] demo_state) =
       Inl (UnboundLocalError ''final_zip_path'')
   \<and> tasks (snd (batch_predict demo_presets demo_engine demo_request
          [(Str ''one'', Str ''x.wav''), (Str ''two'', Str ''y.wav'')] demo_state)) =
       [''/tmp/x.wav'', ''/tmp/y.wav'']
   \<and> fs (snd (batch_predict demo_presets demo_engine demo_request
          [(Str ''one'', Str ''x.wav''), (Str ''two'', Str ''y.wav'')] demo_state)) [''tmp'', ''tmpc.zip''] =
       Some (File (Zip [(''x.wav'', Some (Wav 32000 [111, 110, 101])),
                        (''y.wav'', Some (Wav 32000 [116, 119, 111]))]))"
  by (simp add: handler_defs path_defs demo_defs)

section \<open>C3: a row that fails\<close>

text \<open>
  C3 on the code: a batch of three rows whose second row fails. The handler raises
  \<open>HTTPException(500, "Error during inference")\<close> after two calls of the engine and
  nothing exists for rows two and three (the file system holds the directory
  \<open>/tmp\<close> and one file); but the artifact of row one stays on disk and
  no cleanup at all has been scheduled, since the \<open>add_task\<close> calls of lines 217 to 219
  come after the loop.
\<close>

theorem C3_second_row_fails:
  "fst (batch_predict demo_presets demo_engine (demo_request\<lparr>zip_filename := Some ''out.zip''\<rparr>)
          [(Str ''one'', Str ''x.wav''), (Str ''boom'', Str ''y.wav''), (Str ''three'', Str ''z.wav'')] demo_state) =
       Inl (HTTPException 500 ''Error during inference'')
   \<and> tasks (snd (batch_predict demo_presets demo_engine
          (demo_request\<lparr>zip_filename := Some ''out.zip''\<rparr>)
          [(Str ''one'', Str ''x.wav''), (Str ''boom'', Str ''y.wav''), (Str ''three'', Str ''z.wav'')] demo_state)) = []
   \<and> dom (fs (snd (batch_predict demo_presets demo_engine
          (demo_request\<lparr>zip_filename := Some ''out.zip''\<rparr>)
          [(Str ''one'', Str ''x.wav''), (Str ''boom'', Str ''y.wav''), (Str ''three'', Str ''z.wav'')] demo_state))) =
       {[''tmp'', ''x.wav''], [''tmp'']}
   \<and> length (infer_calls (snd (batch_predict demo_presets demo_engine
          (demo_request\<lparr>zip_filename := Some ''out.zip''\<rparr>)
          [(Str ''one'', Str ''x.wav''), (Str ''boom'', Str ''y.wav''), (Str ''three'', Str ''z.wav'')] demo_state))) = 2"
  by (simp add: handler_defs path_defs demo_defs)

section \<open>C4: swapping weights\<close>

text \<open>
  C4. In \<open>predict\<close>, in \<open>batch_predict\<close> and in \<open>get_tts_wav\<close>, once the requested
  weight paths are resolved, \<open>change_sovits_weights\<close> is called (once, with the
  requested path) when that path differs from the one loaded, and is not called when
  the two are equal; likewise \<open>change_gpt_weights\<close>.
\<close>

theorem C4_weight_swap:
  assumes "character_preset example_json data0 = Inr data"
      and "getitem sovits_info sovits_speaker = Inr sovits_models"
      and "getitem sovits_models sovits_name = Inr sovits_path"
      and "getitem gpt_info gpt_speaker = Inr gpt_models"
      and "getitem gpt_models gpt_name = Inr gpt_path"
  shows "sovits_loads (snd (predict example_json infer data0 s)) =
           sovits_loads s @ reload (sovits_model s) (sovits_weights data)
       \<and> gpt_loads (snd (predict example_json infer data0 s)) =
           gpt_loads s @ reload (gpt_model s) (gpt_weights data)
       \<and> sovits_loads (snd (batch_predict example_json infer data0 rows s)) =
           sovits_loads s @ reload (sovits_model s) (sovits_weights data)
       \<and> gpt_loads (snd (batch_predict example_json infer data0 rows s)) =
           gpt_loads s @ reload (gpt_model s) (gpt_weights data)
       \<and> sovits_loads (snd (get_tts_wav sovits_info gpt_info infer sovits_speaker sovits_name
              gpt_speaker gpt_name ref_audio ptext planguage line tlanguage how k p t rfree s)) =
           sovits_loads s @ reload (sovits_model s) (Some sovits_path)
       \<and> gpt_loads (snd (get_tts_wav sovits_info gpt_info infer sovits_speaker sovits_name
              gpt_speaker gpt_name ref_audio ptext planguage line tlanguage how k p t rfree s)) =
           gpt_loads s @ reload (gpt_model s) (Some gpt_path)"
proof -
  have "sovits_loads (snd (predict example_json infer data0 s)) =
          sovits_loads s @ reload (sovits_model s) (sovits_weights data)"
       "gpt_loads (snd (predict example_json infer data0 s)) =
          gpt_loads s @ reload (gpt_model s) (gpt_weights data)"
    using predict_try_loads [OF assms(1), of infer s]
    by (simp_all add: predict_snd swap_weights_loads)
  moreover
  have "sovits_loads (snd (batch_predict example_json infer data0 rows s)) =
          sovits_loads s @ reload (sovits_model s) (sovits_weights data)"
       "gpt_loads (snd (batch_predict example_json infer data0 rows s)) =
          gpt_loads s @ reload (gpt_model s) (gpt_weights data)"
    using batch_try_loads [OF assms(1), of infer rows s]
    by (simp_all add: batch_predict_snd swap_weights_loads)
  moreover
  have "sovits_loads (snd (get_tts_wav sovits_info gpt_info infer sovits_speaker sovits_name
              gpt_speaker gpt_name ref_audio ptext planguage line tlanguage how k p t rfree s)) =
           sovits_loads s @ reload (sovits_model s) (Some sovits_path)"
       "gpt_loads (snd (get_tts_wav sovits_info gpt_info infer sovits_speaker sovits_name
              gpt_speaker gpt_name ref_audio ptext planguage line tlanguage how k p t rfree s)) =
           gpt_loads s @ reload (gpt_model s) (Some gpt_path)"
    using assms(2-5)
    by (simp_all add: get_tts_wav_def Let_def infer_next_loads reload_def
        change_sovits_weights_def change_gpt_weights_def)
  ultimately show ?thesis by simp
qed

theorem C4_weight_swap_witness:
  "sovits_loads (snd (predict demo_presets demo_engine demo_request demo_state)) =
     [Some ''sovits/demo.pth'']
   \<and> sovits_loads (snd (predict demo_presets demo_engine demo_request
        (demo_state\<lparr>sovits_model := Some ''sovits/demo.pth''\<rparr>))) = []
   \<and> gpt_loads (snd (batch_predict demo_presets demo_engine demo_request [] demo_state)) =
     [Some ''gpt/demo.ckpt'']
   \<and> gpt_loads (snd (get_tts_wav demo_models demo_models demo_engine (Some ''demo'') (Some ''v1'')
        (Some ''demo'') (Some ''v1'') None None (Some zh) ''hi'' (Some zh) None None None None None
        (demo_state\<lparr>gpt_model := Some ''weights/demo_v1''\<rparr>))) = []
   \<and> sovits_loads (snd (get_tts_wav demo_models demo_models demo_engine (Some ''demo'') (Some ''v1'')
        (Some ''demo'') (Some ''v1'') None None (Some zh) ''hi'' (Some zh) None None None None None
        (demo_state\<lparr>gpt_model := Some ''weights/demo_v1''\<rparr>))) = [Some ''weights/demo_v1'']"
proof -
  have a: "character_preset demo_presets demo_request =
     Inr (demo_request\<lparr>ref_audio_path := Some ''examples/demo.wav'',
            prompt_text := Some ''hello'', prompt_language := Some zh,
            gpt_weights := Some ''gpt/demo.ckpt'', sovits_weights := Some ''sovits/demo.pth''\<rparr>)"
    by (simp add: character_preset_def getitem_def demo_presets_def demo_request_def)
  have b: "getitem demo_models (Some ''demo'') = Inr [''v1'' \<mapsto> ''weights/demo_v1'']"
    by (simp add: getitem_def demo_models_def)
  have c: "getitem [''v1'' \<mapsto> ''weights/demo_v1''] (Some ''v1'') = Inr ''weights/demo_v1''"
    by (simp add: getitem_def)
  note w = C4_weight_swap [where infer = demo_engine, OF a b c b c]
  show ?thesis
    using w [where s = demo_state and rows = "[]"]
      w [where s = "demo_state\<lparr>sovits_model := Some ''sovits/demo.pth''\<rparr>"]
      w [where s = "demo_state\<lparr>gpt_model := Some ''weights/demo_v1''\<rparr>"
          and ref_audio = None and ptext = None and planguage = "Some zh" and line = "''hi''"
          and tlanguage = "Some zh" and how = None and k = None and p = None and t = None
          and rfree = None]
    by (simp add: reload_def demo_state_def)
qed

section \<open>C6: an unknown language\<close>

text \<open>
  C6 on the code: a request whose \<open>text_language\<close> is not a key of \<open>LANG_DICT\<close>. The
  \<open>KeyError\<close> is raised inside the inner \<open>try\<close>, whose \<open>except Exception\<close> turns it into
  \<open>HTTPException(500, "Error during inference")\<close>; the \<open>except KeyError\<close> of the handler
  never sees it, the key is named only in the log, and the engine is not called.
\<close>

theorem C6_unknown_language:
  "fst (predict demo_presets demo_engine (demo_request\<lparr>text_language := ''xx''\<rparr>) demo_state) =
     Inl (HTTPException 500 ''Error during inference'')
   \<and> log_records (snd (predict demo_presets demo_engine
        (demo_request\<lparr>text_language := ''xx''\<rparr>) demo_state)) =
     [LogError ''Error during inference: '' (KeyError (Some ''xx''))]
   \<and> infer_calls (snd (predict demo_presets demo_engine
        (demo_request\<lparr>text_language := ''xx''\<rparr>) demo_state)) = []"
  by (simp add: handler_defs path_defs demo_defs)

section \<open>C7: an unknown character\<close>

text \<open>
  C7. A request that names a character missing from the preset table gets the pair
  \<open>{"error": "Missing necessary parameter: <name>"}, 400\<close> back, from \<open>predict\<close> and
  from \<open>batch_predict\<close> alike, and the state is left as it was: no call of the engine,
  no change of weights, no file.
\<close>

theorem C7_unknown_character:
  assumes "character_name data = Some c" and "example_json c = None"
  shows "predict example_json infer data s
           = (Inr (ErrorTuple (''Missing necessary parameter: '' @ c) 400), s)
       \<and> batch_predict example_json infer data rows s
           = (Inr (ErrorTuple (''Missing necessary parameter: '' @ c) 400), s)"
  using assms
  by (simp add: predict_def predict_try_def batch_predict_def batch_try_def
      character_preset_def getitem_def missing_parameter_def)

theorem C7_unknown_character_witness:
  "character_name (demo_request\<lparr>character_name := Some ''nobody''\<rparr>) = Some ''nobody''
   \<and> demo_presets ''nobody'' = None
   \<and> predict demo_presets demo_engine (demo_request\<lparr>character_name := Some ''nobody''\<rparr>)
         demo_state
       = (Inr (ErrorTuple ''Missing necessary parameter: nobody'' 400), demo_state)
   \<and> batch_predict demo_presets demo_engine (demo_request\<lparr>character_name := Some ''nobody''\<rparr>)
         [(Str ''one'', Str ''x.wav'')] demo_state
       = (Inr (ErrorTuple ''Missing necessary parameter: nobody'' 400), demo_state)"
proof -
  have a: "character_name (demo_request\<lparr>character_name := Some ''nobody''\<rparr>) = Some ''nobody''"
    by simp
  have b: "demo_presets ''nobody'' = None"
    by (simp add: demo_presets_def)
  show ?thesis
    using a b
      C7_unknown_character [where data = "demo_request\<lparr>character_name := Some ''nobody''\<rparr>"
        and c = "''nobody''" and example_json = demo_presets and infer = demo_engine
        and s = demo_state and rows = "[(Str ''one'', Str ''x.wav'')]"]
    by simp
qed

section \<open>C8: a known character\<close>

text \<open>
  C8. For a request that names a character of the preset table, the five fields are
  overwritten with the values recorded for it, and the handlers work with these
  values: \<open>predict\<close> and \<open>batch_predict\<close> behave exactly as for the request that names
  no character and carries the five values itself; the engine is only ever run with
  the preset's two weight paths loaded, which are the paths loaded afterwards, and the
  weights are reloaded exactly where these differ from the ones loaded before; and,
  when both languages are keys of \<open>LANG_DICT\<close>, the engine is called with the preset's
  reference audio, reference text and reference language, once by \<open>predict\<close> and for
  the rows of the sheet, one after the other from the first, by \<open>batch_predict\<close>.
\<close>

theorem C8_known_character:
  assumes "character_name data = Some c" and "example_json c = Some preset"
      and "preset ''audio_path'' = Some a" and "preset ''ref_text'' = Some t"
      and "preset ''ref_language'' = Some l" and "preset ''gpt_weights'' = Some g"
      and "preset ''sovits_weights'' = Some v"
  shows "character_preset example_json data =
           Inr (data\<lparr>ref_audio_path := Some a, prompt_text := Some t, prompt_language := Some l,
                     gpt_weights := Some g, sovits_weights := Some v\<rparr>)
       \<and> predict example_json infer data s =
           predict example_json infer
             (data\<lparr>character_name := None, ref_audio_path := Some a, prompt_text := Some t,
                   prompt_language := Some l, gpt_weights := Some g, sovits_weights := Some v\<rparr>) s
       \<and> batch_predict example_json infer data rows s =
           batch_predict example_json infer
             (data\<lparr>character_name := None, ref_audio_path := Some a, prompt_text := Some t,
                   prompt_language := Some l, gpt_weights := Some g, sovits_weights := Some v\<rparr>)
             rows s
       \<and> predict example_json infer data s =
           predict example_json (\<lambda>loaded. infer (Some v, Some g)) data s
       \<and> batch_predict example_json infer data rows s =
           batch_predict example_json (\<lambda>loaded. infer (Some v, Some g)) data rows s
       \<and> sovits_model (snd (predict example_json infer data s)) = Some v
       \<and> gpt_model (snd (predict example_json infer data s)) = Some g
       \<and> sovits_model (snd (batch_predict example_json infer data rows s)) = Some v
       \<and> gpt_model (snd (batch_predict example_json infer data rows s)) = Some g
       \<and> sovits_loads (snd (predict example_json infer data s)) =
           sovits_loads s @ reload (sovits_model s) (Some v)
       \<and> gpt_loads (snd (predict example_json infer data s)) =
           gpt_loads s @ reload (gpt_model s) (Some g)
       \<and> sovits_loads (snd (batch_predict example_json infer data rows s)) =
           sovits_loads s @ reload (sovits_model s) (Some v)
       \<and> gpt_loads (snd (batch_predict example_json infer data rows s)) =
           gpt_loads s @ reload (gpt_model s) (Some g)
       \<and> (getitem LANG_DICT (Some l) = Inr plang
            \<and> getitem LANG_DICT (Some (text_language data)) = Inr tlang \<longrightarrow>
          infer_calls (snd (predict example_json infer data s)) =
            infer_calls s @
            [\<lparr>arg_ref_wav_path = Some a, arg_prompt_text = Some t, arg_prompt_language = plang,
              arg_text = Str (req_text data), arg_text_language = tlang,
              arg_how_to_cut = how_to_cut data, arg_top_k = top_k data, arg_top_p = top_p data,
              arg_temperature = temperature data, arg_ref_free = ref_free data\<rparr>]
          \<and> (\<exists>n\<le>length rows. (rows \<noteq> [] \<longrightarrow> 0 < n)
               \<and> infer_calls (snd (batch_predict example_json infer data rows s)) =
                   infer_calls s @
                   map (\<lambda>row.
                          \<lparr>arg_ref_wav_path = Some a, arg_prompt_text = Some t,
                           arg_prompt_language = plang, arg_text = fst row,
                           arg_text_language = tlang, arg_how_to_cut = how_to_cut data,
                           arg_top_k = top_k data, arg_top_p = top_p data,
                           arg_temperature = temperature data, arg_ref_free = ref_free data\<rparr>)
                     (take n rows)))"
proof -
  let ?d1 = "data\<lparr>ref_audio_path := Some a, prompt_text := Some t, prompt_language := Some l,
                   gpt_weights := Some g, sovits_weights := Some v\<rparr>"
  let ?d2 = "data\<lparr>character_name := None, ref_audio_path := Some a, prompt_text := Some t,
                   prompt_language := Some l, gpt_weights := Some g, sovits_weights := Some v\<rparr>"
  let ?p = "predict example_json infer data s"
  let ?b = "batch_predict example_json infer data rows s"
  have k: "character_preset example_json data = Inr ?d1"
    using assms by (simp add: character_preset_def getitem_def)
  have n: "character_preset example_json ?d2 = Inr ?d2"
    by (simp add: character_preset_none)
  have e: "?d2 = ?d1\<lparr>character_name := None\<rparr>"
    by simp
  have "predict_try example_json infer data s = predict_try example_json infer ?d2 s"
    unfolding predict_try_def k n
    by (simp only: e generate_character swap_weights_character sum.case) simp
  then have c2: "?p = predict example_json infer ?d2 s"
    by (simp add: predict_def)
  have "batch_try example_json infer data rows s = batch_try example_json infer ?d2 rows s"
    unfolding batch_try_def k n
    by (simp only: e batch_rows_character swap_weights_character sum.case)
      (simp add: Let_def split: prod.splits sum.splits option.splits)
  then have c3: "?b = batch_predict example_json infer ?d2 rows s"
    by (simp add: batch_predict_def)
  have c4: "?p = predict example_json (\<lambda>loaded. infer (Some v, Some g)) data s"
    using predict_try_engine [OF k, of infer s] by (simp add: predict_def)
  have c5: "?b = batch_predict example_json (\<lambda>loaded. infer (Some v, Some g)) data rows s"
    using batch_try_engine [OF k, of infer rows s] by (simp add: batch_predict_def)
  note pa = predict_try_after [OF k, of infer s plang tlang]
  note ba = batch_try_after [OF k, of infer rows s plang tlang]
  have c6: "sovits_model (snd ?p) = Some v" "gpt_model (snd ?p) = Some g"
    using pa by (simp_all add: predict_snd)
  have c7: "sovits_model (snd ?b) = Some v" "gpt_model (snd ?b) = Some g"
    using ba by (simp_all add: batch_predict_snd)
  have c8: "sovits_loads (snd ?p) = sovits_loads s @ reload (sovits_model s) (Some v)"
    "gpt_loads (snd ?p) = gpt_loads s @ reload (gpt_model s) (Some g)"
    using predict_try_loads [OF k, of infer s]
    by (simp_all add: predict_snd swap_weights_loads)
  have c9: "sovits_loads (snd ?b) = sovits_loads s @ reload (sovits_model s) (Some v)"
    "gpt_loads (snd ?b) = gpt_loads s @ reload (gpt_model s) (Some g)"
    using batch_try_loads [OF k, of infer rows s]
    by (simp_all add: batch_predict_snd swap_weights_loads)
  have c10: "getitem LANG_DICT (Some l) = Inr plang
            \<and> getitem LANG_DICT (Some (text_language data)) = Inr tlang \<longrightarrow>
          infer_calls (snd ?p) =
            infer_calls s @
            [\<lparr>arg_ref_wav_path = Some a, arg_prompt_text = Some t, arg_prompt_language = plang,
              arg_text = Str (req_text data), arg_text_language = tlang,
              arg_how_to_cut = how_to_cut data, arg_top_k = top_k data, arg_top_p = top_p data,
              arg_temperature = temperature data, arg_ref_free = ref_free data\<rparr>]"
    using pa by (simp add: predict_snd request_args_def)
  have c11: "getitem LANG_DICT (Some l) = Inr plang
            \<and> getitem LANG_DICT (Some (text_language data)) = Inr tlang \<longrightarrow>
          (\<exists>n\<le>length rows. (rows \<noteq> [] \<longrightarrow> 0 < n)
               \<and> infer_calls (snd ?b) =
                   infer_calls s @
                   map (\<lambda>row.
                          \<lparr>arg_ref_wav_path = Some a, arg_prompt_text = Some t,
                           arg_prompt_language = plang, arg_text = fst row,
                           arg_text_language = tlang, arg_how_to_cut = how_to_cut data,
                           arg_top_k = top_k data, arg_top_p = top_p data,
                           arg_temperature = temperature data, arg_ref_free = ref_free data\<rparr>)
                     (take n rows))"
    using ba by (simp add: batch_predict_snd request_args_def)
  from k c2 c3 c4 c5 c6 c7 c8 c9 c10 c11 show ?thesis
    by blast
qed

theorem C8_known_character_witness:
  "character_preset demo_presets demo_request =
     Inr (demo_request\<lparr>ref_audio_path := Some ''examples/demo.wav'',
            prompt_text := Some ''hello'', prompt_language := Some zh,
            gpt_weights := Some ''gpt/demo.ckpt'', sovits_weights := Some ''sovits/demo.pth''\<rparr>)
   \<and> predict demo_presets demo_engine demo_request demo_state =
       predict demo_presets demo_engine
         (demo_request\<lparr>character_name := None, ref_audio_path := Some ''examples/demo.wav'',
            prompt_text := Some ''hello'', prompt_language := Some zh,
            gpt_weights := Some ''gpt/demo.ckpt'', sovits_weights := Some ''sovits/demo.pth''\<rparr>)
         demo_state
   \<and> sovits_model (snd (predict demo_presets demo_engine demo_request demo_state)) =
       Some ''sovits/demo.pth''
   \<and> gpt_loads (snd (batch_predict demo_presets demo_engine demo_request
        [(Str ''one'', Str ''x.wav'')] demo_state)) = [Some ''gpt/demo.ckpt'']
   \<and> infer_calls (snd (predict demo_presets demo_engine demo_request demo_state)) =
       [\<lparr>arg_ref_wav_path = Some ''examples/demo.wav'', arg_prompt_text = Some ''hello'',
         arg_prompt_language = ''all_zh'', arg_text = Str ''hi'',
         arg_text_language = ''all_zh'', arg_how_to_cut = None, arg_top_k = Some 5,
         arg_top_p = Some (7 / 10), arg_temperature = Some (7 / 10),
         arg_ref_free = Some False\<rparr>]
   \<and> take 1 (infer_calls (snd (batch_predict demo_presets demo_engine demo_request
        [(Str ''one'', Str ''x.wav'')] demo_state))) =
       [\<lparr>arg_ref_wav_path = Some ''examples/demo.wav'', arg_prompt_text = Some ''hello'',
         arg_prompt_language = ''all_zh'', arg_text = Str ''one'',
         arg_text_language = ''all_zh'', arg_how_to_cut = None, arg_top_k = Some 5,
         arg_top_p = Some (7 / 10), arg_temperature = Some (7 / 10),
         arg_ref_free = Some False\<rparr>]"
proof -
  have a: "character_name demo_request = Some ''demo''"
    by (simp add: demo_request_def)
  have b: "demo_presets ''demo'' =
     Some [''audio_path'' \<mapsto> ''examples/demo.wav'', ''ref_text'' \<mapsto> ''hello'',
         ''ref_language'' \<mapsto> zh, ''gpt_weights'' \<mapsto> ''gpt/demo.ckpt'',
         ''sovits_weights'' \<mapsto> ''sovits/demo.pth'']"
    by (simp add: demo_presets_def)
  have l: "getitem LANG_DICT (Some zh) = Inr ''all_zh''"
    "getitem LANG_DICT (Some (text_language demo_request)) = Inr ''all_zh''"
    by (simp_all add: LANG_DICT_zh demo_request_def)
  have r: "req_text demo_request = ''hi''" "how_to_cut demo_request = None"
    "top_k demo_request = Some 5" "top_p demo_request = Some (7 / 10)"
    "temperature demo_request = Some (7 / 10)" "ref_free demo_request = Some False"
    by (simp_all add: demo_request_def)
  have s: "sovits_model demo_state = None" "gpt_model demo_state = None"
    "sovits_loads demo_state = []" "gpt_loads demo_state = []" "infer_calls demo_state = []"
    by (simp_all add: demo_state_def)
  note w = C8_known_character [where infer = demo_engine and s = demo_state
        and rows = "[(Str ''one'', Str ''x.wav'')]"
        and data = demo_request and c = "''demo''" and example_json = demo_presets
        and preset = "[''audio_path'' \<mapsto> ''examples/demo.wav'', ''ref_text'' \<mapsto> ''hello'',
         ''ref_language'' \<mapsto> zh, ''gpt_weights'' \<mapsto> ''gpt/demo.ckpt'',
         ''sovits_weights'' \<mapsto> ''sovits/demo.pth'']"
        and a = "''examples/demo.wav''" and t = "''hello''" and l = zh
        and g = "''gpt/demo.ckpt''" and v = "''sovits/demo.pth''"
        and plang = "''all_zh''" and tlang = "''all_zh''", OF a b]
  show ?thesis
    using w l r s
    by (auto simp: reload_def)
qed

section \<open>C9: a failure of the engine\<close>

text \<open>
  C9. When the engine raises \<open>e\<close> during generation, \<open>predict\<close> raises
  \<open>HTTPException(500, "Error during inference")\<close>, a value that does not depend on
  \<open>e\<close>; the record logged holds \<open>e\<close>; the engine has been called exactly once; and
  nothing else changed besides the weights swapped before the call.
\<close>

theorem C9_synthesis_failure:
  assumes "character_preset example_json data0 = Inr data"
      and "getitem LANG_DICT (prompt_language data) = Inr plang"
      and "getitem LANG_DICT (Some (text_language data)) = Inr tlang"
      and "infer (sovits_weights data, gpt_weights data)
             (request_args data (Str (req_text data)) plang tlang) = Inl e"
  shows "predict example_json infer data0 s =
           (Inl (HTTPException 500 ''Error during inference''),
            (swap_weights data s)
              \<lparr>infer_calls := infer_calls s @ [request_args data (Str (req_text data)) plang tlang],
               log_records := log_records s @ [LogError ''Error during inference: '' e]\<rparr>)"
proof -
  let ?s1 = "swap_weights data s"
  have "infer (sovits_model ?s1, gpt_model ?s1) (request_args data (Str (req_text data)) plang tlang)
          = Inl e"
    using assms(4) by (simp add: swap_weights_models)
  from generate_raises [where infer = infer and s = ?s1, OF assms(2) assms(3) this]
  show ?thesis
    using assms(1) by (simp add: predict_def predict_try_def swap_weights_frame)
qed

theorem C9_synthesis_failure_witness:
  "predict demo_presets demo_engine (demo_request\<lparr>req_text := ''boom''\<rparr>) demo_state =
     (Inl (HTTPException 500 ''Error during inference''),
      demo_state
        \<lparr>sovits_model := Some ''sovits/demo.pth'', gpt_model := Some ''gpt/demo.ckpt'',
         sovits_loads := [Some ''sovits/demo.pth''], gpt_loads := [Some ''gpt/demo.ckpt''],
         infer_calls :=
           [\<lparr>arg_ref_wav_path = Some ''examples/demo.wav'', arg_prompt_text = Some ''hello'',
             arg_prompt_language = ''all_zh'', arg_text = Str ''boom'',
             arg_text_language = ''all_zh'', arg_how_to_cut = None, arg_top_k = Some 5,
             arg_top_p = Some (7 / 10), arg_temperature = Some (7 / 10),
             arg_ref_free = Some False\<rparr>],
         log_records :=
           [LogError ''Error during inference: '' (EngineError ''CUDA out of memory'')]\<rparr>)"
proof -
  let ?d = "demo_request\<lparr>req_text := ''boom'', ref_audio_path := Some ''examples/demo.wav'',
            prompt_text := Some ''hello'', prompt_language := Some zh,
            gpt_weights := Some ''gpt/demo.ckpt'', sovits_weights := Some ''sovits/demo.pth''\<rparr>"
  have a: "getitem LANG_DICT (prompt_language ?d) = Inr ''all_zh''"
    by (simp add: LANG_DICT_zh)
  have b: "getitem LANG_DICT (Some (text_language ?d)) = Inr ''all_zh''"
    by (simp add: LANG_DICT_zh demo_request_def)
  have c: "demo_engine (sovits_weights ?d, gpt_weights ?d)
             (request_args ?d (Str (req_text ?d)) ''all_zh'' ''all_zh'') = Inl (EngineError ''CUDA out of memory'')"
    by (simp add: demo_engine_def request_args_def)
  show ?thesis
    using C9_synthesis_failure [where infer = demo_engine and s = demo_state, OF demo_character a b c]
    by (simp add: swap_weights_def change_sovits_weights_def change_gpt_weights_def
        request_args_def demo_request_def demo_state_def)
qed

end
